theory Spec2Isabelle
  imports Main "HOL-Library.Word"
begin

unbundle bit_operations_syntax

section \<open>Exceptions and callbacks\<close>

text \<open>
  The exceptions the sources raise, as values. \<open>InvalidArgument\<close> is what
  \<^verbatim>\<open>ThrowInvalidArgument\<close> throws (\<^verbatim>\<open>std::invalid_argument\<close>), \<open>OutOfRange\<close> is
  the \<^verbatim>\<open>std::out_of_range\<close> of \<^verbatim>\<open>std::bitset::set\<close>, and \<open>RuntimeError\<close> is what
  \<^verbatim>\<open>ThrowRuntimeError\<close> throws. A function that can throw returns \<open>error + 'a\<close>, with
  \<open>Inl\<close> for the exception.
\<close>

datatype error = InvalidArgument | OutOfRange | RuntimeError

text \<open>
  A callback is a \<^verbatim>\<open>std::function\<close>. The sources copy callbacks and test them against
  \<^verbatim>\<open>nullptr\<close>, and never call one, so a callback is \<open>None\<close> when it is empty and
  \<open>Some k\<close> when it holds the target \<open>k\<close>.
\<close>

type_synonym callback = "nat option"

type_synonym JSContext = nat

type_synonym JSString = string

section \<open>Property callbacks\<close>

text \<open>
  Modelled from the spec: the enumeration \<^verbatim>\<open>JSPropertyAttribute\<close> is declared outside the
  sources; the spec lists its members.
\<close>

datatype JSPropertyAttribute = ReadOnly | DontEnum | DontDelete

text \<open>
  Modelled from the spec: the base class \<^verbatim>\<open>JSPropertyCallback\<close> is declared outside the
  sources (\<^verbatim>\<open>detail/JSPropertyCallback.hpp\<close>). The spec gives it a name and a set of
  access attributes, a name that is never empty, and an equality on the name and the
  attributes.
\<close>

record JSPropertyCallback =
  property_name :: string
  property_attributes :: "JSPropertyAttribute set"

definition JSPropertyCallback_ctor ::
  "string \<Rightarrow> JSPropertyAttribute set \<Rightarrow> error + JSPropertyCallback" where
  "JSPropertyCallback_ctor name attributes =
     (if name = [] then Inl InvalidArgument
      else Inr \<lparr>property_name = name, property_attributes = attributes\<rparr>)"

definition JSPropertyCallback_eq :: "JSPropertyCallback \<Rightarrow> JSPropertyCallback \<Rightarrow> bool" where
  "JSPropertyCallback_eq lhs rhs \<longleftrightarrow>
     property_name lhs = property_name rhs \<and> property_attributes lhs = property_attributes rhs"

text \<open>
  \<^verbatim>\<open>JSExportNamedFunctionPropertyCallback<T>\<close>: the base class and the member
  \<^verbatim>\<open>function_callback__\<close>.
\<close>

record JSExportNamedFunctionPropertyCallback = JSPropertyCallback +
  function_callback__' :: callback

text \<open>
  The constructor. The base class is initialised first, by its own constructor, which
  is taken as the parameter \<open>base_ctor\<close>; its exception leaves the constructor before
  the body runs. The body throws when \<^verbatim>\<open>function_callback\<close> is empty.
\<close>

definition JSExportNamedFunctionPropertyCallback_ctor ::
  "(string \<Rightarrow> JSPropertyAttribute set \<Rightarrow> error + JSPropertyCallback) \<Rightarrow>
   string \<Rightarrow> callback \<Rightarrow> JSPropertyAttribute set \<Rightarrow>
   error + JSExportNamedFunctionPropertyCallback" where
  "JSExportNamedFunctionPropertyCallback_ctor base_ctor function_name function_callback attributes =
     (case base_ctor function_name attributes of
        Inl e \<Rightarrow> Inl e
      | Inr base \<Rightarrow>
          if function_callback = None then Inl InvalidArgument
          else Inr (JSPropertyCallback.extend base \<lparr>function_callback__' = function_callback\<rparr>))"

text \<open>
  \<^verbatim>\<open>operator==\<close> of two function-property callbacks: two tests of the callbacks against
  empty, then the equality of the base class on the two base parts (the
  \<^verbatim>\<open>static_cast<JSPropertyCallback>\<close>), taken as the parameter \<open>base_eq\<close>.
\<close>

definition function_property_callback_eq ::
  "(JSPropertyCallback \<Rightarrow> JSPropertyCallback \<Rightarrow> bool) \<Rightarrow>
   JSExportNamedFunctionPropertyCallback \<Rightarrow> JSExportNamedFunctionPropertyCallback \<Rightarrow> bool" where
  "function_property_callback_eq base_eq lhs rhs =
     (if function_callback__' lhs \<noteq> None \<and> function_callback__' rhs = None then False
      else if function_callback__' lhs = None \<and> function_callback__' rhs \<noteq> None then False
      else base_eq (JSPropertyCallback.truncate lhs) (JSPropertyCallback.truncate rhs))"

text \<open>
  Modelled from the spec: the class \<^verbatim>\<open>JSNativeObjectValuePropertyCallback<T>\<close> is declared
  outside the sources. The spec gives a value-property callback a getter and an
  optional setter on top of the base class.
\<close>

record JSNativeObjectValuePropertyCallback = JSPropertyCallback +
  getter :: callback
  setter :: callback

section \<open>The engine's class record\<close>

text \<open>
  \<^verbatim>\<open>JSClassDefinition\<close> is the structure of the JavaScriptCore C API that the
  constructor of \<^verbatim>\<open>JSNativeObject\<close> fills: the four fields the constructor assigns, and
  the two tables of static values and static functions, through which the engine
  finds the trampolines of a class's properties (an entry is kept by its name). A
  \<^verbatim>\<open>JSClass\<close> is created from a class record and stands for it; \<^verbatim>\<open>parentClass\<close> is the
  parent's class, or \<open>None\<close> for the null pointer.
\<close>

datatype trampoline = JSObjectInitializeCallback

datatype JSClassDefinition =
  JSClassDefinition
    (attributes: nat)
    (className: string)
    (parentClass: "JSClass option")
    (staticValues: "string list")
    (staticFunctions: "string list")
    (initialize: "trampoline option")
and JSClass = JSClass JSClassDefinition

text \<open>Assignments to the fields of a class record.\<close>

fun assign_attributes :: "nat \<Rightarrow> JSClassDefinition \<Rightarrow> JSClassDefinition" where
  "assign_attributes v (JSClassDefinition a n p sv sf i) = JSClassDefinition v n p sv sf i"

fun assign_className :: "string \<Rightarrow> JSClassDefinition \<Rightarrow> JSClassDefinition" where
  "assign_className v (JSClassDefinition a n p sv sf i) = JSClassDefinition a v p sv sf i"

fun assign_parentClass :: "JSClass option \<Rightarrow> JSClassDefinition \<Rightarrow> JSClassDefinition" where
  "assign_parentClass v (JSClassDefinition a n p sv sf i) = JSClassDefinition a n v sv sf i"

fun assign_initialize :: "trampoline option \<Rightarrow> JSClassDefinition \<Rightarrow> JSClassDefinition" where
  "assign_initialize v (JSClassDefinition a n p sv sf i) = JSClassDefinition a n p sv sf v"

text \<open>\<^verbatim>\<open>kJSClassDefinitionEmpty\<close> of the C API: every field zero or null.\<close>

definition kJSClassDefinitionEmpty :: JSClassDefinition where
  "kJSClassDefinitionEmpty = JSClassDefinition 0 [] None [] [] None"

section \<open>The builder\<close>

text \<open>
  \<^verbatim>\<open>JSNativeObjectBuilder<T>\<close>, with its members under their names. A member name of
  the sources ends in an underscore, which a name cannot do here, so a prime follows
  it: \<^verbatim>\<open>class_name_\<close> is \<open>class_name_'\<close>.
  \<^item> A \<^verbatim>\<open>std::unordered_set\<close> is the list of its elements in the order a loop over it
    visits them; two such sets are equal when the lists have the same elements.
  \<^item> A \<^verbatim>\<open>JSNativeObjectAttributes\<close> is the position \<^verbatim>\<open>std::bitset::set\<close> receives for it:
    its value in the underlying type, converted to \<^verbatim>\<open>size_t\<close>. The enumeration is
    declared outside the sources.
  \<^item> \<^verbatim>\<open>parent_ptr_\<close> is the class of the object it points to, which is all the sources read
    through it, or \<open>None\<close> for \<^verbatim>\<open>nullptr\<close>.
  \<^item> The set of function-property callbacks holds the function-property callbacks of the
    sources, \<^verbatim>\<open>JSExportNamedFunctionPropertyCallback\<close>.
\<close>

record JSNativeObjectBuilder =
  js_context_' :: JSContext
  class_name_' :: JSString
  attributes_' :: "nat list"
  parent_ptr_' :: "JSClass option"
  value_property_callbacks_' :: "JSNativeObjectValuePropertyCallback list"
  function_property_callbacks_' :: "JSExportNamedFunctionPropertyCallback list"
  initialize_callback_' :: callback
  finalize_callback_' :: callback
  has_property_callback_' :: callback
  get_property_callback_' :: callback
  set_property_callback_' :: callback
  delete_property_callback_' :: callback
  get_property_names_callback_' :: callback
  call_as_function_callback_' :: callback
  call_as_constructor_callback_' :: callback
  call_as_function_with_this_callback_' :: callback
  has_instance_callback_' :: callback
  convert_to_type_callback_' :: callback

text \<open>
  The constructor from a \<^verbatim>\<open>JSContext\<close>: the members take their default initialisers.
\<close>

definition JSNativeObjectBuilder_ctor :: "JSContext \<Rightarrow> JSNativeObjectBuilder" where
  "JSNativeObjectBuilder_ctor js_context =
     \<lparr>js_context_' = js_context, class_name_' = [], attributes_' = [], parent_ptr_' = None,
      value_property_callbacks_' = [], function_property_callbacks_' = [],
      initialize_callback_' = None, finalize_callback_' = None, has_property_callback_' = None,
      get_property_callback_' = None, set_property_callback_' = None,
      delete_property_callback_' = None, get_property_names_callback_' = None,
      call_as_function_callback_' = None, call_as_constructor_callback_' = None,
      call_as_function_with_this_callback_' = None, has_instance_callback_' = None,
      convert_to_type_callback_' = None\<rparr>"

subsection \<open>Getters\<close>

definition get_js_context :: "JSNativeObjectBuilder \<Rightarrow> JSContext" where
  "get_js_context this = js_context_' this"

definition get_class_name :: "JSNativeObjectBuilder \<Rightarrow> JSString" where
  "get_class_name this = class_name_' this"

definition get_attributes :: "JSNativeObjectBuilder \<Rightarrow> nat list" where
  "get_attributes this = attributes_' this"

definition get_parent_ptr :: "JSNativeObjectBuilder \<Rightarrow> JSClass option" where
  "get_parent_ptr this = parent_ptr_' this"

definition get_value_property_callbacks ::
  "JSNativeObjectBuilder \<Rightarrow> JSNativeObjectValuePropertyCallback list" where
  "get_value_property_callbacks this = value_property_callbacks_' this"

definition get_function_property_callbacks ::
  "JSNativeObjectBuilder \<Rightarrow> JSExportNamedFunctionPropertyCallback list" where
  "get_function_property_callbacks this = function_property_callbacks_' this"

definition get_initialize_callback :: "JSNativeObjectBuilder \<Rightarrow> callback" where
  "get_initialize_callback this = initialize_callback_' this"

definition get_finalize_callback :: "JSNativeObjectBuilder \<Rightarrow> callback" where
  "get_finalize_callback this = finalize_callback_' this"

definition get_has_property_callback :: "JSNativeObjectBuilder \<Rightarrow> callback" where
  "get_has_property_callback this = has_property_callback_' this"

definition get_get_property_callback :: "JSNativeObjectBuilder \<Rightarrow> callback" where
  "get_get_property_callback this = get_property_callback_' this"

definition get_set_property_callback :: "JSNativeObjectBuilder \<Rightarrow> callback" where
  "get_set_property_callback this = set_property_callback_' this"

definition get_delete_property_callback :: "JSNativeObjectBuilder \<Rightarrow> callback" where
  "get_delete_property_callback this = delete_property_callback_' this"

definition get_get_property_names_callback :: "JSNativeObjectBuilder \<Rightarrow> callback" where
  "get_get_property_names_callback this = get_property_names_callback_' this"

definition get_call_as_function_callback :: "JSNativeObjectBuilder \<Rightarrow> callback" where
  "get_call_as_function_callback this = call_as_function_callback_' this"

definition get_call_as_function_with_this_callback :: "JSNativeObjectBuilder \<Rightarrow> callback" where
  "get_call_as_function_with_this_callback this = call_as_function_with_this_callback_' this"

definition get_call_as_constructor_callback :: "JSNativeObjectBuilder \<Rightarrow> callback" where
  "get_call_as_constructor_callback this = call_as_constructor_callback_' this"

definition get_has_instance_callback :: "JSNativeObjectBuilder \<Rightarrow> callback" where
  "get_has_instance_callback this = has_instance_callback_' this"

definition get_convert_to_type_callback :: "JSNativeObjectBuilder \<Rightarrow> callback" where
  "get_convert_to_type_callback this = convert_to_type_callback_' this"

subsection \<open>Setters\<close>

text \<open>
  A setter assigns its argument to one member and returns \<^verbatim>\<open>*this\<close>: the builder it
  was called on, in its new state.

  \<^verbatim>\<open>set_js_context\<close> is written differently from the others: its parameter is itself
  named \<^verbatim>\<open>js_context_\<close>, so inside the body that name is the parameter and not the
  member, and the right-hand side \<^verbatim>\<open>js_context\<close> of its assignment is no declared name.
  No statement of the body writes the member \<^verbatim>\<open>js_context_\<close>; the builder is returned as
  it was.
\<close>

definition set_js_context :: "JSNativeObjectBuilder \<Rightarrow> JSContext \<Rightarrow> JSNativeObjectBuilder" where
  "set_js_context this js_context_parameter = this"

definition set_class_name :: "JSNativeObjectBuilder \<Rightarrow> JSString \<Rightarrow> JSNativeObjectBuilder" where
  "set_class_name this class_name = this\<lparr>class_name_' := class_name\<rparr>"

definition set_attributes :: "JSNativeObjectBuilder \<Rightarrow> nat list \<Rightarrow> JSNativeObjectBuilder" where
  "set_attributes this attributes_parameter = this\<lparr>attributes_' := attributes_parameter\<rparr>"

definition set_parent_ptr :: "JSNativeObjectBuilder \<Rightarrow> JSClass option \<Rightarrow> JSNativeObjectBuilder" where
  "set_parent_ptr this parent_ptr = this\<lparr>parent_ptr_' := parent_ptr\<rparr>"

definition set_value_property_callbacks ::
  "JSNativeObjectBuilder \<Rightarrow> JSNativeObjectValuePropertyCallback list \<Rightarrow> JSNativeObjectBuilder" where
  "set_value_property_callbacks this value_property_callbacks =
     this\<lparr>value_property_callbacks_' := value_property_callbacks\<rparr>"

definition set_function_property_callbacks ::
  "JSNativeObjectBuilder \<Rightarrow> JSExportNamedFunctionPropertyCallback list \<Rightarrow> JSNativeObjectBuilder" where
  "set_function_property_callbacks this function_property_callbacks =
     this\<lparr>function_property_callbacks_' := function_property_callbacks\<rparr>"

definition set_initialize_callback :: "JSNativeObjectBuilder \<Rightarrow> callback \<Rightarrow> JSNativeObjectBuilder" where
  "set_initialize_callback this initialize_callback =
     this\<lparr>initialize_callback_' := initialize_callback\<rparr>"

definition set_finalize_callback :: "JSNativeObjectBuilder \<Rightarrow> callback \<Rightarrow> JSNativeObjectBuilder" where
  "set_finalize_callback this finalize_callback = this\<lparr>finalize_callback_' := finalize_callback\<rparr>"

definition set_has_property_callback :: "JSNativeObjectBuilder \<Rightarrow> callback \<Rightarrow> JSNativeObjectBuilder" where
  "set_has_property_callback this has_property_callback =
     this\<lparr>has_property_callback_' := has_property_callback\<rparr>"

definition set_get_property_callback :: "JSNativeObjectBuilder \<Rightarrow> callback \<Rightarrow> JSNativeObjectBuilder" where
  "set_get_property_callback this get_property_callback =
     this\<lparr>get_property_callback_' := get_property_callback\<rparr>"

definition set_set_property_callback :: "JSNativeObjectBuilder \<Rightarrow> callback \<Rightarrow> JSNativeObjectBuilder" where
  "set_set_property_callback this set_property_callback =
     this\<lparr>set_property_callback_' := set_property_callback\<rparr>"

definition set_delete_property_callback :: "JSNativeObjectBuilder \<Rightarrow> callback \<Rightarrow> JSNativeObjectBuilder" where
  "set_delete_property_callback this delete_property_callback =
     this\<lparr>delete_property_callback_' := delete_property_callback\<rparr>"

definition set_get_property_names_callback ::
  "JSNativeObjectBuilder \<Rightarrow> callback \<Rightarrow> JSNativeObjectBuilder" where
  "set_get_property_names_callback this get_property_names_callback =
     this\<lparr>get_property_names_callback_' := get_property_names_callback\<rparr>"

definition set_call_as_function_callback ::
  "JSNativeObjectBuilder \<Rightarrow> callback \<Rightarrow> JSNativeObjectBuilder" where
  "set_call_as_function_callback this call_as_function_callback =
     this\<lparr>call_as_function_callback_' := call_as_function_callback\<rparr>"

definition set_call_as_function_with_this_callback ::
  "JSNativeObjectBuilder \<Rightarrow> callback \<Rightarrow> JSNativeObjectBuilder" where
  "set_call_as_function_with_this_callback this call_as_function_with_this_callback =
     this\<lparr>call_as_function_with_this_callback_' := call_as_function_with_this_callback\<rparr>"

definition set_call_as_constructor_callback ::
  "JSNativeObjectBuilder \<Rightarrow> callback \<Rightarrow> JSNativeObjectBuilder" where
  "set_call_as_constructor_callback this call_as_constructor_callback =
     this\<lparr>call_as_constructor_callback_' := call_as_constructor_callback\<rparr>"

definition set_has_instance_callback :: "JSNativeObjectBuilder \<Rightarrow> callback \<Rightarrow> JSNativeObjectBuilder" where
  "set_has_instance_callback this has_instance_callback =
     this\<lparr>has_instance_callback_' := has_instance_callback\<rparr>"

definition set_convert_to_type_callback ::
  "JSNativeObjectBuilder \<Rightarrow> callback \<Rightarrow> JSNativeObjectBuilder" where
  "set_convert_to_type_callback this convert_to_type_callback =
     this\<lparr>convert_to_type_callback_' := convert_to_type_callback\<rparr>"

subsection \<open>The definition copied from a builder\<close>

text \<open>
  \<^verbatim>\<open>JSNativeObjectDefinition<T>\<close>. Its members have the names of the builder's members;
  here each carries the prefix \<open>d_\<close>. The constructor from a builder copies every member
  but the context, and copies the class name a second time, into
  \<^verbatim>\<open>class_name_for_js_class_definition_\<close>.
\<close>

record JSNativeObjectDefinition =
  d_class_name_' :: JSString
  d_class_name_for_js_class_definition_' :: string
  d_attributes_' :: "nat list"
  d_parent_ptr_' :: "JSClass option"
  d_value_property_callbacks_' :: "JSNativeObjectValuePropertyCallback list"
  d_function_property_callbacks_' :: "JSExportNamedFunctionPropertyCallback list"
  d_initialize_callback_' :: callback
  d_finalize_callback_' :: callback
  d_has_property_callback_' :: callback
  d_get_property_callback_' :: callback
  d_set_property_callback_' :: callback
  d_delete_property_callback_' :: callback
  d_get_property_names_callback_' :: callback
  d_call_as_function_with_this_callback_' :: callback
  d_call_as_function_callback_' :: callback
  d_call_as_constructor_callback_' :: callback
  d_has_instance_callback_' :: callback
  d_convert_to_type_callback_' :: callback

definition JSNativeObjectDefinition_ctor :: "JSNativeObjectBuilder \<Rightarrow> JSNativeObjectDefinition" where
  "JSNativeObjectDefinition_ctor builder =
     \<lparr>d_class_name_' = class_name_' builder,
      d_class_name_for_js_class_definition_' = class_name_' builder,
      d_attributes_' = attributes_' builder,
      d_parent_ptr_' = parent_ptr_' builder,
      d_value_property_callbacks_' = value_property_callbacks_' builder,
      d_function_property_callbacks_' = function_property_callbacks_' builder,
      d_initialize_callback_' = initialize_callback_' builder,
      d_finalize_callback_' = finalize_callback_' builder,
      d_has_property_callback_' = has_property_callback_' builder,
      d_get_property_callback_' = get_property_callback_' builder,
      d_set_property_callback_' = set_property_callback_' builder,
      d_delete_property_callback_' = delete_property_callback_' builder,
      d_get_property_names_callback_' = get_property_names_callback_' builder,
      d_call_as_function_with_this_callback_' = call_as_function_with_this_callback_' builder,
      d_call_as_function_callback_' = call_as_function_callback_' builder,
      d_call_as_constructor_callback_' = call_as_constructor_callback_' builder,
      d_has_instance_callback_' = has_instance_callback_' builder,
      d_convert_to_type_callback_' = convert_to_type_callback_' builder\<rparr>"

definition get_js_native_object_definition ::
  "JSNativeObjectBuilder \<Rightarrow> JSNativeObjectDefinition" where
  "get_js_native_object_definition this = JSNativeObjectDefinition_ctor this"

subsection \<open>Compiling a builder into a class\<close>

text \<open>
  \<^verbatim>\<open>std::bitset<2>\<close> is a word of two bits. \<^verbatim>\<open>set(pos)\<close> throws \<^verbatim>\<open>std::out_of_range\<close> when
  \<^verbatim>\<open>pos\<close> is not a position of the bitset, and sets the bit otherwise; \<^verbatim>\<open>to_ulong\<close> reads
  the bits as a number.
\<close>

definition bitset_set :: "2 word \<Rightarrow> nat \<Rightarrow> error + 2 word" where
  "bitset_set bits pos = (if 2 \<le> pos then Inl OutOfRange else Inr (set_bit pos bits))"

definition to_ulong :: "2 word \<Rightarrow> nat" where
  "to_ulong bits = unat bits"

text \<open>
  The loop over the definition's attributes: each one sets the bit at its position; an
  exception of \<^verbatim>\<open>set\<close> leaves the loop and the constructor.
\<close>

fun set_native_object_attributes :: "nat list \<Rightarrow> 2 word \<Rightarrow> error + 2 word" where
  "set_native_object_attributes [] native_object_attributes = Inr native_object_attributes"
| "set_native_object_attributes (native_object_attribute # rest) native_object_attributes =
     (case bitset_set native_object_attributes native_object_attribute of
        Inl e \<Rightarrow> Inl e
      | Inr bits \<Rightarrow> set_native_object_attributes rest bits)"

text \<open>
  The loop over the value-property callbacks, whose body is empty (it is marked
  \<^verbatim>\<open>TODO\<close>): every step leaves the class record as it is. The constructor has no loop
  over the function-property callbacks.
\<close>

definition value_property_callbacks_loop ::
  "JSNativeObjectValuePropertyCallback list \<Rightarrow> JSClassDefinition \<Rightarrow> JSClassDefinition" where
  "value_property_callbacks_loop value_property_callbacks js_class_definition =
     fold (\<lambda>value_property_callback d. d) value_property_callbacks js_class_definition"

text \<open>
  \<^verbatim>\<open>JSNativeObject<T>\<close>: the context (the member \<^verbatim>\<open>js_context_\<close>, here \<open>o_js_context_'\<close>), the
  definition, the class record and the class created from it.
\<close>

record JSNativeObject =
  o_js_context_' :: JSContext
  js_native_object_definition_' :: JSNativeObjectDefinition
  js_class_definition_' :: JSClassDefinition
  js_class_' :: JSClass

text \<open>
  The constructor of \<^verbatim>\<open>JSNativeObject<T>\<close> from a builder. The member
  \<^verbatim>\<open>js_class_definition_\<close> is declared outside the sources, and so is its initial value:
  it is the parameter \<open>initial\<close>. The body assigns \<^verbatim>\<open>attributes\<close> and \<^verbatim>\<open>className\<close>,
  \<^verbatim>\<open>parentClass\<close> when the definition has a parent, and \<^verbatim>\<open>initialize\<close> when it has an
  initialize callback, and creates the class from the record. It tests neither the
  class name nor the names of the properties.
\<close>

definition JSNativeObject_ctor ::
  "JSClassDefinition \<Rightarrow> JSNativeObjectBuilder \<Rightarrow> error + JSNativeObject" where
  "JSNativeObject_ctor initial builder =
     (let js_native_object_definition = get_js_native_object_definition builder in
      case set_native_object_attributes (d_attributes_' js_native_object_definition) 0 of
        Inl e \<Rightarrow> Inl e
      | Inr native_object_attributes \<Rightarrow>
          let d1 = assign_attributes (to_ulong native_object_attributes) initial;
              d2 = assign_className
                     (d_class_name_for_js_class_definition_' js_native_object_definition) d1;
              d3 = (case d_parent_ptr_' js_native_object_definition of
                      Some parent \<Rightarrow> assign_parentClass (Some parent) d2
                    | None \<Rightarrow> d2);
              d4 = value_property_callbacks_loop
                     (d_value_property_callbacks_' js_native_object_definition) d3;
              d5 = (if d_initialize_callback_' js_native_object_definition \<noteq> None
                    then assign_initialize (Some JSObjectInitializeCallback) d4
                    else d4)
          in Inr \<lparr>o_js_context_' = js_context_' builder,
                  js_native_object_definition_' = js_native_object_definition,
                  js_class_definition_' = d5,
                  js_class_' = JSClass d5\<rparr>)"

text \<open>
  \<^verbatim>\<open>build()\<close> is a \<^verbatim>\<open>const\<close> member: it validates nothing (the validation is marked
  \<^verbatim>\<open>TODO\<close>) and constructs the class from \<^verbatim>\<open>*this\<close>. The constructor from a builder that
  the sources hold is the one of \<^verbatim>\<open>JSNativeObject\<close>. The result is the builder after the
  call and what the constructor returned or threw.
\<close>

definition build ::
  "JSClassDefinition \<Rightarrow> JSNativeObjectBuilder \<Rightarrow> JSNativeObjectBuilder \<times> (error + JSNativeObject)" where
  "build initial this = (this, JSNativeObject_ctor initial this)"

text \<open>The names of the properties a compiled class holds, in its definition.\<close>

definition property_names :: "JSNativeObject \<Rightarrow> string set" where
  "property_names js_native_object =
     property_name ` set (d_value_property_callbacks_' (js_native_object_definition_' js_native_object))
     \<union> property_name ` set (d_function_property_callbacks_' (js_native_object_definition_' js_native_object))"

text \<open>
  Two builders hold equal snapshots when every member of one equals the same member of
  the other, the unordered sets as sets.
\<close>

definition equal_snapshots :: "JSNativeObjectBuilder \<Rightarrow> JSNativeObjectBuilder \<Rightarrow> bool" where
  "equal_snapshots a b \<longleftrightarrow>
     js_context_' a = js_context_' b \<and>
     class_name_' a = class_name_' b \<and>
     set (attributes_' a) = set (attributes_' b) \<and>
     parent_ptr_' a = parent_ptr_' b \<and>
     set (value_property_callbacks_' a) = set (value_property_callbacks_' b) \<and>
     set (function_property_callbacks_' a) = set (function_property_callbacks_' b) \<and>
     initialize_callback_' a = initialize_callback_' b \<and>
     finalize_callback_' a = finalize_callback_' b \<and>
     has_property_callback_' a = has_property_callback_' b \<and>
     get_property_callback_' a = get_property_callback_' b \<and>
     set_property_callback_' a = set_property_callback_' b \<and>
     delete_property_callback_' a = delete_property_callback_' b \<and>
     get_property_names_callback_' a = get_property_names_callback_' b \<and>
     call_as_function_callback_' a = call_as_function_callback_' b \<and>
     call_as_constructor_callback_' a = call_as_constructor_callback_' b \<and>
     call_as_function_with_this_callback_' a = call_as_function_with_this_callback_' b \<and>
     has_instance_callback_' a = has_instance_callback_' b \<and>
     convert_to_type_callback_' a = convert_to_type_callback_' b"

section \<open>JSArray\<close>

text \<open>
  A \<^verbatim>\<open>JSArray\<close> is a \<^verbatim>\<open>JSObject\<close>. The member functions of \<^verbatim>\<open>JSObject\<close> and the conversion
  operators of \<^verbatim>\<open>JSValue\<close> are declared outside the sources, so an array is what these
  calls answer for it: \<open>'v\<close> is the type of a \<^verbatim>\<open>JSValue\<close> and \<open>'d\<close> the type of a
  \<^verbatim>\<open>double\<close>. \<^verbatim>\<open>GetProperty\<close> and a conversion can throw (\<open>Inl\<close>); the tests
  \<^verbatim>\<open>HasProperty\<close> and \<^verbatim>\<open>IsNumber\<close> answer with a \<^verbatim>\<open>bool\<close>. \<open>GetProperty_index\<close> is the
  overload of \<^verbatim>\<open>GetProperty\<close> that takes an index. An \<^verbatim>\<open>int32_t\<close> is a word of 32 bits
  read as signed.
\<close>

record ('v, 'd) JSArray =
  HasProperty :: "string \<Rightarrow> bool"
  GetProperty :: "string \<Rightarrow> error + 'v"
  GetProperty_index :: "32 word \<Rightarrow> error + 'v"
  IsNumber :: "'v \<Rightarrow> bool"
  to_bool :: "'v \<Rightarrow> error + bool"
  to_string :: "'v \<Rightarrow> error + string"
  to_double :: "'v \<Rightarrow> error + 'd"
  to_int32_t :: "'v \<Rightarrow> error + 32 word"
  to_uint32_t :: "'v \<Rightarrow> error + 32 word"

text \<open>
  What a call does: it returns a value, it throws, or the program is terminated
  (\<^verbatim>\<open>std::terminate\<close>). An exception that reaches the boundary of a function declared
  \<^verbatim>\<open>noexcept\<close> terminates the program. \<^verbatim>\<open>HAL_NOEXCEPT\<close> is defined outside the sources;
  it is read as \<^verbatim>\<open>noexcept\<close>.
\<close>

datatype 'a outcome = Returns 'a | Throws error | Terminates

definition may_throw :: "error + 'a \<Rightarrow> 'a outcome" where
  "may_throw r = (case r of Inl e \<Rightarrow> Throws e | Inr x \<Rightarrow> Returns x)"

definition HAL_NOEXCEPT :: "error + 'a \<Rightarrow> 'a outcome" where
  "HAL_NOEXCEPT r = (case r of Inl e \<Rightarrow> Terminates | Inr x \<Rightarrow> Returns x)"

definition GetLength_body :: "('v, 'd) JSArray \<Rightarrow> error + 32 word" where
  "GetLength_body this =
     (if \<not> HasProperty this ''length'' then Inr 0
      else case GetProperty this ''length'' of
             Inl e \<Rightarrow> Inl e
           | Inr length' \<Rightarrow> if \<not> IsNumber this length' then Inr 0 else to_uint32_t this length')"

definition GetLength :: "('v, 'd) JSArray \<Rightarrow> 32 word outcome" where
  "GetLength this = HAL_NOEXCEPT (GetLength_body this)"

text \<open>
  The loop of the six conversions to \<^verbatim>\<open>std::vector\<close>: \<open>item i\<close> is the element pushed
  for the index \<open>i\<close>, or the exception that getting or converting it throws. The index
  is a \<^verbatim>\<open>uint32_t\<close>, and \<^verbatim>\<open>i++\<close> wraps around. \<^verbatim>\<open>reserve\<close> changes no element of the vector;
  running out of memory is not modelled.
\<close>

function items_loop ::
  "(32 word \<Rightarrow> error + 'x) \<Rightarrow> 32 word \<Rightarrow> 32 word \<Rightarrow> 'x list \<Rightarrow> error + 'x list" where
  "items_loop item length' i items =
     (if i < length' then
        (case item i of
           Inl e \<Rightarrow> Inl e
         | Inr x \<Rightarrow> items_loop item length' (i + 1) (items @ [x]))
      else Inr items)"
  by pat_completeness auto
termination
proof (relation "measure (\<lambda>(item, length', i, items). unat length' - unat i)")
  show "wf (measure (\<lambda>(item, length', i, items). unat length' - unat i))"
    by simp
next
  fix item :: "32 word \<Rightarrow> error + 'x" and length' i :: "32 word" and items :: "'x list" and x :: 'x
  assume less: "i < length'"
  then have "unat i < unat length'"
    by (simp add: word_less_nat_alt)
  moreover have "unat (i + 1) = unat i + 1"
  proof -
    have "i \<noteq> - 1"
      using less by auto
    then have "1 + i \<noteq> 0"
      by (simp add: add_eq_0_iff)
    then show ?thesis
      by (simp add: unatSuc add.commute)
  qed
  ultimately show "((item, length', i + 1, items @ [x]), (item, length', i, items))
      \<in> measure (\<lambda>(item, length', i, items). unat length' - unat i)"
    by simp
qed

definition item_of :: "('v, 'd) JSArray \<Rightarrow> ('v \<Rightarrow> error + 'x) \<Rightarrow> 32 word \<Rightarrow> error + 'x" where
  "item_of this convert i =
     (case GetProperty_index this i of Inl e \<Rightarrow> Inl e | Inr v \<Rightarrow> convert v)"

definition to_vector :: "('v, 'd) JSArray \<Rightarrow> ('v \<Rightarrow> error + 'x) \<Rightarrow> 'x list outcome" where
  "to_vector this convert =
     (case GetLength this of
        Terminates \<Rightarrow> Terminates
      | Throws e \<Rightarrow> Throws e
      | Returns length' \<Rightarrow> may_throw (items_loop (item_of this convert) length' 0 []))"

definition vector_of_JSValue :: "('v, 'd) JSArray \<Rightarrow> 'v list outcome" where
  "vector_of_JSValue this = to_vector this Inr"

definition vector_of_bool :: "('v, 'd) JSArray \<Rightarrow> bool list outcome" where
  "vector_of_bool this = to_vector this (to_bool this)"

definition vector_of_string :: "('v, 'd) JSArray \<Rightarrow> string list outcome" where
  "vector_of_string this = to_vector this (to_string this)"

definition vector_of_double :: "('v, 'd) JSArray \<Rightarrow> 'd list outcome" where
  "vector_of_double this = to_vector this (to_double this)"

definition vector_of_int32_t :: "('v, 'd) JSArray \<Rightarrow> 32 word list outcome" where
  "vector_of_int32_t this = to_vector this (to_int32_t this)"

definition vector_of_uint32_t :: "('v, 'd) JSArray \<Rightarrow> 32 word list outcome" where
  "vector_of_uint32_t this = to_vector this (to_uint32_t this)"

text \<open>
  An array to evaluate the functions on: its \<^verbatim>\<open>length\<close> is the number 2 and its elements
  are the numbers 10 and 20. A value is \<open>None\<close> for \<^verbatim>\<open>undefined\<close> and \<open>Some k\<close> for the
  number \<open>k\<close>.
\<close>

definition example_array :: "(nat option, nat) JSArray" where
  "example_array =
     \<lparr>HasProperty = (\<lambda>name. name = ''length''),
      GetProperty = (\<lambda>name. if name = ''length'' then Inr (Some 2) else Inr None),
      GetProperty_index = (\<lambda>i. if i = 0 then Inr (Some 10) else if i = 1 then Inr (Some 20) else Inr None),
      IsNumber = (\<lambda>v. v \<noteq> None),
      to_bool = (\<lambda>v. Inr (v \<noteq> None \<and> v \<noteq> Some 0)),
      to_string = (\<lambda>v. Inl RuntimeError),
      to_double = (\<lambda>v. case v of None \<Rightarrow> Inl RuntimeError | Some k \<Rightarrow> Inr k),
      to_int32_t = (\<lambda>v. case v of None \<Rightarrow> Inr 0 | Some k \<Rightarrow> Inr (word_of_nat k)),
      to_uint32_t = (\<lambda>v. case v of None \<Rightarrow> Inr 0 | Some k \<Rightarrow> Inr (word_of_nat k))\<rparr>"

section \<open>Properties of the compilation\<close>

subsection \<open>The attribute bits\<close>

lemma set_native_object_attributes_eq:
  "set_native_object_attributes as bits =
     (if \<exists>a\<in>set as. 2 \<le> a then Inl OutOfRange else Inr (fold set_bit as bits))"
  by (induction as arbitrary: bits) (auto simp: bitset_set_def)

lemma bit_fold_set_bit:
  "bit (fold set_bit as (w :: 2 word)) n \<longleftrightarrow> bit w n \<or> (n \<in> set as \<and> n < 2)"
  by (induction as arbitrary: w) (auto simp: bit_set_bit_iff possible_bit_def)

lemma bit_or_powers:
  "bit (foldr (\<lambda>a m. 2 ^ a OR m) as (0::nat)) n \<longleftrightarrow> n \<in> set as"
  by (induction as) (auto simp: bit_or_iff bit_exp_iff)

lemma bit_to_ulong_fold:
  assumes "\<forall>a\<in>set as. a < 2"
  shows "bit (to_ulong (fold set_bit as 0)) n \<longleftrightarrow> n \<in> set as"
  using assms by (auto simp: to_ulong_def bit_unsigned_iff bit_fold_set_bit)

lemma to_ulong_fold:
  assumes "\<forall>a\<in>set as. a < 2"
  shows "to_ulong (fold set_bit as 0) = foldr (\<lambda>a m. 2 ^ a OR m) as 0"
  by (rule bit_eqI) (simp add: bit_to_ulong_fold [OF assms] bit_or_powers)

lemma fold_set_bit_cong:
  assumes "set as = set bs"
  shows "fold set_bit as (w :: 2 word) = fold set_bit bs w"
  by (rule bit_eqI) (simp add: bit_fold_set_bit assms)

lemma set_native_object_attributes_cong:
  assumes "set as = set bs"
  shows "set_native_object_attributes as w = set_native_object_attributes bs w"
  by (simp add: set_native_object_attributes_eq assms fold_set_bit_cong [OF assms])

lemma value_property_callbacks_loop_id [simp]:
  "value_property_callbacks_loop vs d = d"
  unfolding value_property_callbacks_loop_def by (induction vs) auto

lemma attributes_assign [simp]:
  "attributes (assign_attributes v d) = v"
  "attributes (assign_className s d) = attributes d"
  "attributes (assign_parentClass p d) = attributes d"
  "attributes (assign_initialize i d) = attributes d"
  by (cases d; simp)+

lemma className_assign [simp]:
  "className (assign_attributes v d) = className d"
  "className (assign_className s d) = s"
  "className (assign_parentClass p d) = className d"
  "className (assign_initialize i d) = className d"
  by (cases d; simp)+

lemma staticValues_assign [simp]:
  "staticValues (assign_attributes v d) = staticValues d"
  "staticValues (assign_className s d) = staticValues d"
  "staticValues (assign_parentClass p d) = staticValues d"
  "staticValues (assign_initialize i d) = staticValues d"
  by (cases d; simp)+

lemma staticFunctions_assign [simp]:
  "staticFunctions (assign_attributes v d) = staticFunctions d"
  "staticFunctions (assign_className s d) = staticFunctions d"
  "staticFunctions (assign_parentClass p d) = staticFunctions d"
  "staticFunctions (assign_initialize i d) = staticFunctions d"
  by (cases d; simp)+


lemma JSNativeObject_ctor_throws:
  assumes "\<exists>a\<in>set (attributes_' builder). 2 \<le> a"
  shows "JSNativeObject_ctor initial builder = Inl OutOfRange"
  using assms
  by (simp add: JSNativeObject_ctor_def get_js_native_object_definition_def
      JSNativeObjectDefinition_ctor_def set_native_object_attributes_eq)

lemma JSNativeObject_ctor_returns:
  assumes "\<forall>a\<in>set (attributes_' builder). a < 2"
  shows "\<exists>obj. JSNativeObject_ctor initial builder = Inr obj \<and>
           o_js_context_' obj = js_context_' builder \<and>
           js_native_object_definition_' obj = get_js_native_object_definition builder \<and>
           js_class_' obj = JSClass (js_class_definition_' obj) \<and>
           attributes (js_class_definition_' obj) = to_ulong (fold set_bit (attributes_' builder) 0) \<and>
           className (js_class_definition_' obj) = class_name_' builder \<and>
           staticValues (js_class_definition_' obj) = staticValues initial \<and>
           staticFunctions (js_class_definition_' obj) = staticFunctions initial"
proof -
  have "\<not> (\<exists>a\<in>set (attributes_' builder). 2 \<le> a)"
    using assms by auto
  then show ?thesis
    by (simp add: JSNativeObject_ctor_def get_js_native_object_definition_def
        JSNativeObjectDefinition_ctor_def set_native_object_attributes_eq Let_def
        split: option.split)
qed

lemma JSNativeObject_ctor_error:
  "JSNativeObject_ctor initial builder = Inl e \<longleftrightarrow>
     e = OutOfRange \<and> (\<exists>a\<in>set (attributes_' builder). 2 \<le> a)"
proof (cases "\<exists>a\<in>set (attributes_' builder). 2 \<le> a")
  case True
  then show ?thesis
    using JSNativeObject_ctor_throws [OF True, of initial] by auto
next
  case False
  then have "\<forall>a\<in>set (attributes_' builder). a < 2"
    by auto
  from JSNativeObject_ctor_returns [OF this, of initial] False show ?thesis
    by auto
qed

subsection \<open>The attribute bitmask\<close>

text \<open>
  Claim C3, as amended. When every attribute of the builder has a position below 2, the
  constructor returns a class whose \<^verbatim>\<open>attributes\<close> is the bitwise OR of the powers of two
  of the positions: the bit \<open>n\<close> of the mask is set exactly when \<open>n\<close> is the position of
  an attribute of the set. When some attribute has a position of 2 or more, the
  constructor throws \<^verbatim>\<open>std::out_of_range\<close>, the exception of the bitset.
\<close>

theorem attribute_bitmask:
  "((\<forall>a\<in>set (attributes_' builder). a < 2) \<longrightarrow>
      (\<exists>obj. JSNativeObject_ctor initial builder = Inr obj \<and>
         attributes (js_class_definition_' obj) =
           foldr (\<lambda>a m. 2 ^ a OR m) (attributes_' builder) 0 \<and>
         (\<forall>n. bit (attributes (js_class_definition_' obj)) n \<longleftrightarrow> n \<in> set (attributes_' builder)))) \<and>
   ((\<exists>a\<in>set (attributes_' builder). 2 \<le> a) \<longrightarrow>
      JSNativeObject_ctor initial builder = Inl OutOfRange)"
proof (intro conjI impI)
  assume range: "\<forall>a\<in>set (attributes_' builder). a < 2"
  from JSNativeObject_ctor_returns [OF range, of initial] obtain obj where
    obj: "JSNativeObject_ctor initial builder = Inr obj"
      "attributes (js_class_definition_' obj) = to_ulong (fold set_bit (attributes_' builder) 0)"
    by blast
  show "\<exists>obj. JSNativeObject_ctor initial builder = Inr obj \<and>
         attributes (js_class_definition_' obj) =
           foldr (\<lambda>a m. 2 ^ a OR m) (attributes_' builder) 0 \<and>
         (\<forall>n. bit (attributes (js_class_definition_' obj)) n \<longleftrightarrow> n \<in> set (attributes_' builder))"
    using obj by (simp add: to_ulong_fold [OF range] bit_or_powers)
next
  assume "\<exists>a\<in>set (attributes_' builder). 2 \<le> a"
  then show "JSNativeObject_ctor initial builder = Inl OutOfRange"
    by (rule JSNativeObject_ctor_throws)
qed

text \<open>
  The theorem at two builders: the attributes at the positions 1 and 0 give the mask 3,
  and an attribute at the position 2 makes the constructor throw.
\<close>

theorem attribute_bitmask_witness:
  "(\<exists>obj. JSNativeObject_ctor kJSClassDefinitionEmpty
            (set_attributes (JSNativeObjectBuilder_ctor 0) [1, 0]) = Inr obj \<and>
          attributes (js_class_definition_' obj) = 3) \<and>
   JSNativeObject_ctor kJSClassDefinitionEmpty
     (set_attributes (JSNativeObjectBuilder_ctor 0) [0, 2]) = Inl OutOfRange"
proof -
  let ?good = "set_attributes (JSNativeObjectBuilder_ctor 0) [1, 0]"
  let ?bad = "set_attributes (JSNativeObjectBuilder_ctor 0) [0, 2]"
  have good: "attributes_' ?good = [1, 0]" and bad: "attributes_' ?bad = [0, 2]"
    by (simp_all add: set_attributes_def)
  have "\<forall>a\<in>set (attributes_' ?good). a < 2"
    unfolding good by simp
  with attribute_bitmask [of ?good kJSClassDefinitionEmpty] obtain obj where
    "JSNativeObject_ctor kJSClassDefinitionEmpty ?good = Inr obj"
    "attributes (js_class_definition_' obj) = foldr (\<lambda>a m. 2 ^ a OR m) (attributes_' ?good) 0"
    by blast
  then have first: "\<exists>obj. JSNativeObject_ctor kJSClassDefinitionEmpty ?good = Inr obj \<and>
      attributes (js_class_definition_' obj) = 3"
    unfolding good by simp
  have "\<exists>a\<in>set (attributes_' ?bad). 2 \<le> a"
    unfolding bad by simp
  with attribute_bitmask [of ?bad kJSClassDefinitionEmpty]
  have "JSNativeObject_ctor kJSClassDefinitionEmpty ?bad = Inl OutOfRange"
    by blast
  with first show ?thesis
    by blast
qed

text \<open>
  Claim C3 as it was stated fails: for an attribute outside the range the constructor
  does not throw \<^verbatim>\<open>std::invalid_argument\<close>.
\<close>

theorem attribute_out_of_range_counterexample:
  "JSNativeObject_ctor kJSClassDefinitionEmpty
     (set_attributes (JSNativeObjectBuilder_ctor 0) [2]) = Inl OutOfRange \<and>
   JSNativeObject_ctor kJSClassDefinitionEmpty
     (set_attributes (JSNativeObjectBuilder_ctor 0) [2]) \<noteq> Inl InvalidArgument"
  by (simp add: JSNativeObject_ctor_def get_js_native_object_definition_def
      JSNativeObjectDefinition_ctor_def set_attributes_def JSNativeObjectBuilder_ctor_def
      bitset_set_def)

subsection \<open>Determinism\<close>

text \<open>
  Claim C4. Two builders that hold equal snapshots compile alike: the constructor throws
  for one exactly when it throws the same exception for the other, and two classes it
  returns have the same attribute bitmask, the same set of property names and the same
  class record. The order in which a loop visits an unordered set does not matter.
\<close>

theorem compile_deterministic:
  assumes "equal_snapshots a b"
  shows "(\<forall>e. JSNativeObject_ctor initial a = Inl e \<longleftrightarrow> JSNativeObject_ctor initial b = Inl e) \<and>
         (\<forall>x y. JSNativeObject_ctor initial a = Inr x \<and> JSNativeObject_ctor initial b = Inr y \<longrightarrow>
            attributes (js_class_definition_' x) = attributes (js_class_definition_' y) \<and>
            property_names x = property_names y \<and>
            js_class_definition_' x = js_class_definition_' y)"
proof -
  have attrs: "set (attributes_' a) = set (attributes_' b)"
    and others: "class_name_' a = class_name_' b" "parent_ptr_' a = parent_ptr_' b"
      "initialize_callback_' a = initialize_callback_' b"
      "set (value_property_callbacks_' a) = set (value_property_callbacks_' b)"
      "set (function_property_callbacks_' a) = set (function_property_callbacks_' b)"
    using assms by (simp_all add: equal_snapshots_def)
  have bits: "set_native_object_attributes (attributes_' a) 0 =
      set_native_object_attributes (attributes_' b) 0"
    by (rule set_native_object_attributes_cong [OF attrs])
  have errors: "\<forall>e. JSNativeObject_ctor initial a = Inl e \<longleftrightarrow> JSNativeObject_ctor initial b = Inl e"
    by (simp add: JSNativeObject_ctor_error attrs)
  have classes: "js_class_definition_' x = js_class_definition_' y \<and> property_names x = property_names y"
    if "JSNativeObject_ctor initial a = Inr x" "JSNativeObject_ctor initial b = Inr y" for x y
    using that bits others
    by (auto simp: JSNativeObject_ctor_def get_js_native_object_definition_def
        JSNativeObjectDefinition_ctor_def Let_def property_names_def
        split: sum.splits option.splits if_splits)
  show ?thesis
    using errors classes by auto
qed

text \<open>
  The theorem at two builders whose attribute sets are visited in opposite orders:
  both compile, to the same bitmask 3 and the same property names.
\<close>

theorem compile_deterministic_witness:
  "equal_snapshots
     (set_attributes (JSNativeObjectBuilder_ctor 0) [0, 1])
     (set_attributes (JSNativeObjectBuilder_ctor 0) [1, 0]) \<and>
   (\<exists>x y.
      JSNativeObject_ctor kJSClassDefinitionEmpty
        (set_attributes (JSNativeObjectBuilder_ctor 0) [0, 1]) = Inr x \<and>
      JSNativeObject_ctor kJSClassDefinitionEmpty
        (set_attributes (JSNativeObjectBuilder_ctor 0) [1, 0]) = Inr y \<and>
      attributes (js_class_definition_' x) = 3 \<and>
      attributes (js_class_definition_' y) = 3 \<and>
      property_names x = property_names y)"
proof -
  let ?a = "set_attributes (JSNativeObjectBuilder_ctor 0) [0, 1]"
  let ?b = "set_attributes (JSNativeObjectBuilder_ctor 0) [1, 0]"
  have eq: "equal_snapshots ?a ?b"
    by (auto simp: equal_snapshots_def set_attributes_def)
  have a: "attributes_' ?a = [0, 1]"
    by (simp add: set_attributes_def)
  have range: "\<forall>n\<in>set (attributes_' ?a). n < 2"
    unfolding a by simp
  from JSNativeObject_ctor_returns [OF range, of kJSClassDefinitionEmpty] obtain x where
    x: "JSNativeObject_ctor kJSClassDefinitionEmpty ?a = Inr x"
      "attributes (js_class_definition_' x) = to_ulong (fold set_bit (attributes_' ?a) 0)"
    by blast
  have "to_ulong (fold set_bit (attributes_' ?a) 0) =
      foldr (\<lambda>a m. 2 ^ a OR m) (attributes_' ?a) 0"
    by (rule to_ulong_fold [OF range])
  also have "\<dots> = 3"
    unfolding a by simp
  finally have x3: "attributes (js_class_definition_' x) = 3"
    using x(2) by simp
  from compile_deterministic [OF eq, of kJSClassDefinitionEmpty] x(1)
  obtain y where y: "JSNativeObject_ctor kJSClassDefinitionEmpty ?b = Inr y"
    by (cases "JSNativeObject_ctor kJSClassDefinitionEmpty ?b") auto
  with compile_deterministic [OF eq, of kJSClassDefinitionEmpty] x(1)
  have same: "attributes (js_class_definition_' x) = attributes (js_class_definition_' y)"
    "property_names x = property_names y"
    by blast+
  with x3 have "attributes (js_class_definition_' y) = 3"
    by simp
  with eq x(1) x3 y same(2) show ?thesis
    by blast
qed

subsection \<open>What \<^verbatim>\<open>build()\<close> validates\<close>

text \<open>
  Claim C1, as amended. \<^verbatim>\<open>build()\<close> does not look at the class name: every member of the
  builder is optional, and the default class name is empty. For a builder whose
  attributes have positions below 2 and whose value properties share no name with its
  function properties, \<^verbatim>\<open>build()\<close> returns a class, whatever the class name is; the
  class's definition holds the two sets of callbacks of the builder, so every property
  of the builder is a property of the class.
\<close>

theorem build_ignores_class_name:
  assumes "\<forall>a\<in>set (attributes_' this). a < 2"
    and "property_name ` set (value_property_callbacks_' this) \<inter>
         property_name ` set (function_property_callbacks_' this) = {}"
  shows "\<exists>obj. snd (build initial this) = Inr obj \<and>
           className (js_class_definition_' obj) = class_name_' this \<and>
           d_value_property_callbacks_' (js_native_object_definition_' obj) =
             value_property_callbacks_' this \<and>
           d_function_property_callbacks_' (js_native_object_definition_' obj) =
             function_property_callbacks_' this \<and>
           property_names obj =
             property_name ` set (value_property_callbacks_' this) \<union>
             property_name ` set (function_property_callbacks_' this)"
proof -
  from JSNativeObject_ctor_returns [OF assms(1), of initial] obtain obj where
    obj: "JSNativeObject_ctor initial this = Inr obj"
      "js_native_object_definition_' obj = get_js_native_object_definition this"
      "className (js_class_definition_' obj) = class_name_' this"
    by blast
  have "d_value_property_callbacks_' (js_native_object_definition_' obj) =
      value_property_callbacks_' this"
    and "d_function_property_callbacks_' (js_native_object_definition_' obj) =
      function_property_callbacks_' this"
    by (simp_all add: obj(2) get_js_native_object_definition_def JSNativeObjectDefinition_ctor_def)
  then show ?thesis
    using obj(1,3) by (simp add: build_def property_names_def)
qed

text \<open>
  The theorem at a builder with an empty class name, the value property \<^verbatim>\<open>count\<close> and
  the function property \<^verbatim>\<open>greet\<close>.
\<close>

theorem build_ignores_class_name_witness:
  "\<exists>obj. snd (build kJSClassDefinitionEmpty
             (set_function_property_callbacks
                (set_value_property_callbacks (JSNativeObjectBuilder_ctor 0)
                   [\<lparr>property_name = ''count'', property_attributes = {ReadOnly},
                      getter = Some 1, setter = None\<rparr>])
                [\<lparr>property_name = ''greet'', property_attributes = {},
                   function_callback__' = Some 2\<rparr>])) = Inr obj \<and>
         className (js_class_definition_' obj) = [] \<and>
         property_names obj = {''count'', ''greet''}"
proof -
  let ?b = "set_function_property_callbacks
              (set_value_property_callbacks (JSNativeObjectBuilder_ctor 0)
                 [\<lparr>property_name = ''count'', property_attributes = {ReadOnly},
                    getter = Some 1, setter = None\<rparr>])
              [\<lparr>property_name = ''greet'', property_attributes = {},
                 function_callback__' = Some 2\<rparr>]"
  have fields: "attributes_' ?b = []" "class_name_' ?b = []"
    "value_property_callbacks_' ?b =
       [\<lparr>property_name = ''count'', property_attributes = {ReadOnly},
          getter = Some 1, setter = None\<rparr>]"
    "function_property_callbacks_' ?b =
       [\<lparr>property_name = ''greet'', property_attributes = {},
          function_callback__' = Some 2\<rparr>]"
    by (simp_all add: set_function_property_callbacks_def set_value_property_callbacks_def
        JSNativeObjectBuilder_ctor_def)
  have range: "\<forall>a\<in>set (attributes_' ?b). a < 2"
    unfolding fields by simp
  have distinct: "property_name ` set (value_property_callbacks_' ?b) \<inter>
      property_name ` set (function_property_callbacks_' ?b) = {}"
    unfolding fields by simp
  from build_ignores_class_name [OF range distinct, of kJSClassDefinitionEmpty]
  show ?thesis
    unfolding fields by auto
qed

text \<open>
  Claim C1 as it was stated fails: the builder as its constructor leaves it has an empty
  class name, and \<^verbatim>\<open>build()\<close> throws nothing for it and returns a class whose name is
  empty.
\<close>

theorem build_empty_class_name_counterexample:
  "class_name_' (JSNativeObjectBuilder_ctor 0) = [] \<and>
   \<not> isl (snd (build kJSClassDefinitionEmpty (JSNativeObjectBuilder_ctor 0))) \<and>
   className (js_class_definition_'
     (projr (snd (build kJSClassDefinitionEmpty (JSNativeObjectBuilder_ctor 0))))) = []"
  by (simp add: build_def JSNativeObject_ctor_def get_js_native_object_definition_def
      JSNativeObjectDefinition_ctor_def JSNativeObjectBuilder_ctor_def
      kJSClassDefinitionEmpty_def to_ulong_def Let_def)

subsection \<open>The properties and the class record\<close>

text \<open>
  The class record the constructor fills does not depend on the builder's value-property
  and function-property callbacks.
\<close>

lemma class_record_ignores_properties:
  "map_sum id js_class_definition_'
     (JSNativeObject_ctor initial
        (builder\<lparr>value_property_callbacks_' := vs, function_property_callbacks_' := fs\<rparr>)) =
   map_sum id js_class_definition_' (JSNativeObject_ctor initial builder)"
  by (simp add: JSNativeObject_ctor_def get_js_native_object_definition_def
      JSNativeObjectDefinition_ctor_def Let_def split: sum.splits option.splits)

text \<open>
  Claim C2 fails on the sources. For a class named \<^verbatim>\<open>Counter\<close> with the one value property
  \<^verbatim>\<open>count\<close>, \<^verbatim>\<open>build()\<close> returns a class whose definition holds the property, and whose
  class record has no static value and no static function: no trampoline is registered
  for \<^verbatim>\<open>count\<close>.
\<close>

theorem value_property_not_registered:
  "\<exists>obj. snd (build kJSClassDefinitionEmpty
             (set_value_property_callbacks
                (set_class_name (JSNativeObjectBuilder_ctor 0) ''Counter'')
                [\<lparr>property_name = ''count'', property_attributes = {ReadOnly},
                   getter = Some 42, setter = None\<rparr>])) = Inr obj \<and>
         property_names obj = {''count''} \<and>
         staticValues (js_class_definition_' obj) = [] \<and>
         staticFunctions (js_class_definition_' obj) = []"
  by (simp add: build_def JSNativeObject_ctor_def get_js_native_object_definition_def
      JSNativeObjectDefinition_ctor_def JSNativeObjectBuilder_ctor_def
      set_value_property_callbacks_def set_class_name_def property_names_def
      kJSClassDefinitionEmpty_def to_ulong_def Let_def)

section \<open>Properties of the property callbacks\<close>

text \<open>
  Claim C5. A function-property callback is never constructed from an empty invocable.
  When the base class accepts the name and the attributes, the constructor throws
  \<^verbatim>\<open>std::invalid_argument\<close> for an empty invocable, and for an invocable \<open>f\<close> it returns a
  callback that stores \<open>f\<close>. The check is the callback's own: the definition copies the
  builder's set of function-property callbacks as it is.
\<close>

theorem function_callback_checked_at_construction:
  "(\<forall>r. JSExportNamedFunctionPropertyCallback_ctor base_ctor function_name None attrs \<noteq> Inr r) \<and>
   (base_ctor function_name attrs = Inr base \<longrightarrow>
      JSExportNamedFunctionPropertyCallback_ctor base_ctor function_name None attrs =
        Inl InvalidArgument \<and>
      JSExportNamedFunctionPropertyCallback_ctor base_ctor function_name (Some f) attrs =
        Inr (JSPropertyCallback.extend base \<lparr>function_callback__' = Some f\<rparr>) \<and>
      function_callback__' (JSPropertyCallback.extend base \<lparr>function_callback__' = Some f\<rparr>) =
        Some f) \<and>
   d_function_property_callbacks_' (JSNativeObjectDefinition_ctor builder) =
     function_property_callbacks_' builder"
  by (auto simp: JSExportNamedFunctionPropertyCallback_ctor_def JSPropertyCallback.extend_def
      JSNativeObjectDefinition_ctor_def split: sum.splits)

text \<open>
  The theorem with the base class of the spec, at the name \<^verbatim>\<open>greet\<close>.
\<close>

theorem function_callback_checked_at_construction_witness:
  "JSExportNamedFunctionPropertyCallback_ctor JSPropertyCallback_ctor ''greet'' None {DontEnum} =
     Inl InvalidArgument \<and>
   JSExportNamedFunctionPropertyCallback_ctor JSPropertyCallback_ctor ''greet'' (Some 7) {DontEnum} =
     Inr \<lparr>property_name = ''greet'', property_attributes = {DontEnum},
          function_callback__' = Some 7\<rparr>"
proof -
  have base: "JSPropertyCallback_ctor ''greet'' {DontEnum} =
      Inr \<lparr>property_name = ''greet'', property_attributes = {DontEnum}\<rparr>"
    by (simp add: JSPropertyCallback_ctor_def)
  from function_callback_checked_at_construction
    [of JSPropertyCallback_ctor "''greet''" "{DontEnum}"
        "\<lparr>property_name = ''greet'', property_attributes = {DontEnum}\<rparr>" 7] base
  show ?thesis
    by (simp add: JSPropertyCallback.extend_def)
qed

text \<open>
  Claim C6, as amended. Two function-property callbacks are equal exactly when their base
  parts are equal and their invocables are both empty or both not empty; with the base
  equality of the spec, exactly when their names and their attribute sets agree and
  their invocables are both empty or both not empty. The operator does not compare one
  invocable with the other.
\<close>

theorem function_property_callback_equality:
  "(function_property_callback_eq base_eq lhs rhs \<longleftrightarrow>
      base_eq (JSPropertyCallback.truncate lhs) (JSPropertyCallback.truncate rhs) \<and>
      (function_callback__' lhs = None \<longleftrightarrow> function_callback__' rhs = None)) \<and>
   (function_property_callback_eq JSPropertyCallback_eq lhs rhs \<longleftrightarrow>
      property_name lhs = property_name rhs \<and>
      property_attributes lhs = property_attributes rhs \<and>
      (function_callback__' lhs = None \<longleftrightarrow> function_callback__' rhs = None))"
  by (auto simp: function_property_callback_eq_def JSPropertyCallback_eq_def
      JSPropertyCallback.truncate_def)

text \<open>
  Claim C6 as it was stated fails: two callbacks named \<^verbatim>\<open>greet\<close>, with the same
  attributes and the different invocables 1 and 2, are equal.
\<close>

theorem function_property_callback_equality_counterexample:
  "\<not> (function_property_callback_eq JSPropertyCallback_eq
         \<lparr>property_name = ''greet'', property_attributes = {}, function_callback__' = Some 1\<rparr>
         \<lparr>property_name = ''greet'', property_attributes = {}, function_callback__' = Some 2\<rparr>
       \<longleftrightarrow>
         property_name
           \<lparr>property_name = ''greet'', property_attributes = {}, function_callback__' = Some 1\<rparr> =
         property_name
           \<lparr>property_name = ''greet'', property_attributes = {}, function_callback__' = Some 2\<rparr> \<and>
         property_attributes
           \<lparr>property_name = ''greet'', property_attributes = {}, function_callback__' = Some 1\<rparr> =
         property_attributes
           \<lparr>property_name = ''greet'', property_attributes = {}, function_callback__' = Some 2\<rparr> \<and>
         function_callback__'
           \<lparr>property_name = ''greet'', property_attributes = {}, function_callback__' = Some 1\<rparr> =
         function_callback__'
           \<lparr>property_name = ''greet'', property_attributes = {}, function_callback__' = Some 2\<rparr>)"
  by (simp add: function_property_callback_eq_def JSPropertyCallback_eq_def
      JSPropertyCallback.truncate_def)

section \<open>Properties of the builder\<close>

text \<open>
  Claim C7 fails on the sources for one setter. \<^verbatim>\<open>set_js_context\<close> does not overwrite the
  context: a builder made for the context 1 still answers 1 after
  \<^verbatim>\<open>set_js_context(2)\<close>, and so for every builder and context.
\<close>

theorem set_js_context_keeps_context:
  "get_js_context (set_js_context (JSNativeObjectBuilder_ctor 1) 2) = 1 \<and>
   get_js_context (set_js_context this js_context) = get_js_context this"
  by (simp add: get_js_context_def set_js_context_def JSNativeObjectBuilder_ctor_def)

text \<open>
  Every other setter overwrites its member with its argument, and
  \<^verbatim>\<open>set_value_property_callbacks\<close> replaces the set it finds.
\<close>

lemma setters_overwrite:
  "get_class_name (set_class_name this s) = s"
  "get_attributes (set_attributes this as) = as"
  "get_parent_ptr (set_parent_ptr this p) = p"
  "get_value_property_callbacks (set_value_property_callbacks this vs) = vs"
  "get_function_property_callbacks (set_function_property_callbacks this fs) = fs"
  "get_initialize_callback (set_initialize_callback this c) = c"
  "get_finalize_callback (set_finalize_callback this c) = c"
  "get_has_property_callback (set_has_property_callback this c) = c"
  "get_get_property_callback (set_get_property_callback this c) = c"
  "get_set_property_callback (set_set_property_callback this c) = c"
  "get_delete_property_callback (set_delete_property_callback this c) = c"
  "get_get_property_names_callback (set_get_property_names_callback this c) = c"
  "get_call_as_function_callback (set_call_as_function_callback this c) = c"
  "get_call_as_function_with_this_callback (set_call_as_function_with_this_callback this c) = c"
  "get_call_as_constructor_callback (set_call_as_constructor_callback this c) = c"
  "get_has_instance_callback (set_has_instance_callback this c) = c"
  "get_convert_to_type_callback (set_convert_to_type_callback this c) = c"
  by (simp_all add: get_class_name_def set_class_name_def get_attributes_def set_attributes_def
      get_parent_ptr_def set_parent_ptr_def get_value_property_callbacks_def
      set_value_property_callbacks_def get_function_property_callbacks_def
      set_function_property_callbacks_def get_initialize_callback_def
      set_initialize_callback_def get_finalize_callback_def set_finalize_callback_def
      get_has_property_callback_def set_has_property_callback_def
      get_get_property_callback_def set_get_property_callback_def
      get_set_property_callback_def set_set_property_callback_def
      get_delete_property_callback_def set_delete_property_callback_def
      get_get_property_names_callback_def set_get_property_names_callback_def
      get_call_as_function_callback_def set_call_as_function_callback_def
      get_call_as_function_with_this_callback_def set_call_as_function_with_this_callback_def
      get_call_as_constructor_callback_def set_call_as_constructor_callback_def
      get_has_instance_callback_def set_has_instance_callback_def
      get_convert_to_type_callback_def set_convert_to_type_callback_def)

lemma set_value_property_callbacks_replaces:
  "set_value_property_callbacks (set_value_property_callbacks this vs) ws =
     set_value_property_callbacks this ws"
  "set_value_property_callbacks this vs = this\<lparr>value_property_callbacks_' := vs\<rparr>"
  by (simp_all add: set_value_property_callbacks_def)

text \<open>
  Claim C8. \<^verbatim>\<open>build()\<close> returns the builder as it was, so every member keeps its value.
  For a builder whose attributes have positions below 2, \<^verbatim>\<open>build()\<close> returns a class
  made from a copy of the builder's members, a second \<^verbatim>\<open>build()\<close> of the same builder
  returns a class again, equal to the first, and after the class name of the builder is
  set to a new name, \<^verbatim>\<open>build()\<close> returns a class with the new name while the first class
  keeps the old one. For a builder with an attribute at a position of 2 or more, every
  \<^verbatim>\<open>build()\<close> throws \<^verbatim>\<open>std::out_of_range\<close>, and the builder is still as it was.
\<close>

theorem build_leaves_builder:
  "fst (build initial this) = this \<and>
   get_class_name (fst (build initial this)) = get_class_name this \<and>
   get_attributes (fst (build initial this)) = get_attributes this \<and>
   get_parent_ptr (fst (build initial this)) = get_parent_ptr this \<and>
   get_value_property_callbacks (fst (build initial this)) = get_value_property_callbacks this \<and>
   get_function_property_callbacks (fst (build initial this)) =
     get_function_property_callbacks this \<and>
   snd (build initial (fst (build initial this))) = snd (build initial this) \<and>
   ((\<forall>a\<in>set (attributes_' this). a < 2) \<longrightarrow>
      (\<exists>obj other.
         snd (build initial this) = Inr obj \<and>
         snd (build initial (fst (build initial this))) = Inr obj \<and>
         js_native_object_definition_' obj = JSNativeObjectDefinition_ctor this \<and>
         className (js_class_definition_' obj) = get_class_name this \<and>
         snd (build initial (set_class_name (fst (build initial this)) new_name)) = Inr other \<and>
         className (js_class_definition_' other) = new_name \<and>
         d_class_name_' (js_native_object_definition_' other) = new_name \<and>
         d_class_name_' (js_native_object_definition_' obj) = get_class_name this)) \<and>
   ((\<exists>a\<in>set (attributes_' this). 2 \<le> a) \<longrightarrow>
      snd (build initial this) = Inl OutOfRange \<and>
      snd (build initial (fst (build initial this))) = Inl OutOfRange)"
proof -
  have same: "fst (build initial this) = this"
    by (simp add: build_def)
  have produces: "\<exists>obj other.
         snd (build initial this) = Inr obj \<and>
         snd (build initial (fst (build initial this))) = Inr obj \<and>
         js_native_object_definition_' obj = JSNativeObjectDefinition_ctor this \<and>
         className (js_class_definition_' obj) = get_class_name this \<and>
         snd (build initial (set_class_name (fst (build initial this)) new_name)) = Inr other \<and>
         className (js_class_definition_' other) = new_name \<and>
         d_class_name_' (js_native_object_definition_' other) = new_name \<and>
         d_class_name_' (js_native_object_definition_' obj) = get_class_name this"
    if range: "\<forall>a\<in>set (attributes_' this). a < 2"
  proof -
    from JSNativeObject_ctor_returns [OF range, of initial] obtain obj where
      obj: "JSNativeObject_ctor initial this = Inr obj"
        "js_native_object_definition_' obj = get_js_native_object_definition this"
        "className (js_class_definition_' obj) = class_name_' this"
      by blast
    have "\<forall>a\<in>set (attributes_' (set_class_name this new_name)). a < 2"
      using range by (simp add: set_class_name_def)
    from JSNativeObject_ctor_returns [OF this, of initial] obtain other where
      other: "JSNativeObject_ctor initial (set_class_name this new_name) = Inr other"
        "js_native_object_definition_' other =
           get_js_native_object_definition (set_class_name this new_name)"
        "className (js_class_definition_' other) = class_name_' (set_class_name this new_name)"
      by blast
    have "snd (build initial this) = Inr obj"
      and "snd (build initial (fst (build initial this))) = Inr obj"
      and "snd (build initial (set_class_name (fst (build initial this)) new_name)) = Inr other"
      using obj(1) other(1) by (simp_all add: build_def)
    moreover have "js_native_object_definition_' obj = JSNativeObjectDefinition_ctor this"
      and "d_class_name_' (js_native_object_definition_' obj) = get_class_name this"
      by (simp_all add: obj(2) get_js_native_object_definition_def
          JSNativeObjectDefinition_ctor_def get_class_name_def)
    moreover have "className (js_class_definition_' obj) = get_class_name this"
      by (simp add: obj(3) get_class_name_def)
    moreover have "className (js_class_definition_' other) = new_name"
      and "d_class_name_' (js_native_object_definition_' other) = new_name"
      by (simp_all add: other(2,3) get_js_native_object_definition_def
          JSNativeObjectDefinition_ctor_def set_class_name_def)
    ultimately show ?thesis
      by blast
  qed
  have throws: "snd (build initial this) = Inl OutOfRange \<and>
      snd (build initial (fst (build initial this))) = Inl OutOfRange"
    if "\<exists>a\<in>set (attributes_' this). 2 \<le> a"
    using JSNativeObject_ctor_throws [OF that, of initial] by (simp add: build_def)
  show ?thesis
    using same produces throws by simp
qed

text \<open>
  The theorem at a builder for a class named \<^verbatim>\<open>A\<close>: it builds, builds again, and after
  \<^verbatim>\<open>set_class_name("B")\<close> it builds a class named \<^verbatim>\<open>B\<close>.
\<close>

theorem build_leaves_builder_witness:
  "\<exists>obj other.
     snd (build kJSClassDefinitionEmpty
            (set_class_name (JSNativeObjectBuilder_ctor 0) ''A'')) = Inr obj \<and>
     snd (build kJSClassDefinitionEmpty
            (fst (build kJSClassDefinitionEmpty
                    (set_class_name (JSNativeObjectBuilder_ctor 0) ''A'')))) = Inr obj \<and>
     className (js_class_definition_' obj) = ''A'' \<and>
     snd (build kJSClassDefinitionEmpty
            (set_class_name
               (fst (build kJSClassDefinitionEmpty
                       (set_class_name (JSNativeObjectBuilder_ctor 0) ''A''))) ''B'')) = Inr other \<and>
     className (js_class_definition_' other) = ''B''"
proof -
  let ?b = "set_class_name (JSNativeObjectBuilder_ctor 0) ''A''"
  have fields: "attributes_' ?b = []" "get_class_name ?b = ''A''"
    by (simp_all add: set_class_name_def JSNativeObjectBuilder_ctor_def get_class_name_def)
  have range: "\<forall>a\<in>set (attributes_' ?b). a < 2"
    unfolding fields by simp
  from build_leaves_builder [of kJSClassDefinitionEmpty ?b "''B''"] range
  obtain obj other where
    "snd (build kJSClassDefinitionEmpty ?b) = Inr obj"
    "snd (build kJSClassDefinitionEmpty (fst (build kJSClassDefinitionEmpty ?b))) = Inr obj"
    "className (js_class_definition_' obj) = get_class_name ?b"
    "snd (build kJSClassDefinitionEmpty
       (set_class_name (fst (build kJSClassDefinitionEmpty ?b)) ''B'')) = Inr other"
    "className (js_class_definition_' other) = ''B''"
    by blast
  then show ?thesis
    unfolding fields by blast
qed

section \<open>Properties of JSArray\<close>

lemma unat_plus_one:
  assumes "i < (n :: 32 word)"
  shows "unat (i + 1) = Suc (unat i)"
proof -
  have "i \<noteq> - 1"
    using assms by auto
  then have "1 + i \<noteq> 0"
    by (simp add: add_eq_0_iff)
  then show ?thesis
    by (simp add: unatSuc add.commute)
qed

lemma items_loop_returns:
  assumes "\<forall>k. unat i \<le> k \<and> k < unat n \<longrightarrow> (\<exists>x. item (of_nat k) = Inr x)"
  shows "items_loop item n i acc =
           Inr (acc @ map (\<lambda>k. projr (item (of_nat k))) [unat i..<unat n])"
  using assms
proof (induction item n i acc rule: items_loop.induct)
  case (1 item n i acc)
  show ?case
  proof (cases "i < n")
    case True
    then have less: "unat i < unat n"
      by (simp add: word_less_nat_alt)
    with "1.prems" have "\<exists>x. item (of_nat (unat i)) = Inr x"
      by blast
    then obtain x where x: "item i = Inr x"
      by auto
    have suc: "unat (i + 1) = Suc (unat i)"
      by (rule unat_plus_one [OF True])
    have "items_loop item n (i + 1) (acc @ [x]) =
        Inr ((acc @ [x]) @ map (\<lambda>k. projr (item (of_nat k))) [unat (i + 1)..<unat n])"
      using "1.prems" by (intro "1.IH" [OF True x]) (simp add: suc)
    moreover have "[unat i..<unat n] = unat i # [Suc (unat i)..<unat n]"
      using less by (simp add: upt_conv_Cons)
    ultimately show ?thesis
      using True x by (simp add: suc)
  next
    case False
    then have "unat n \<le> unat i"
      by (simp add: word_less_nat_alt)
    with False show ?thesis
      by simp
  qed
qed

lemma to_vector_elementwise:
  assumes len: "GetLength this = Returns n"
    and items: "\<forall>k<unat n. \<exists>x. item_of this convert (of_nat k) = Inr x"
  shows "\<exists>xs. to_vector this convert = Returns xs \<and> length xs = unat n \<and>
           (\<forall>k<unat n. item_of this convert (of_nat k) = Inr (xs ! k))"
proof -
  let ?xs = "map (\<lambda>k. projr (item_of this convert (of_nat k))) [unat (0 :: 32 word)..<unat n]"
  have "items_loop (item_of this convert) n 0 [] = Inr ([] @ ?xs)"
    using items by (intro items_loop_returns) simp
  then have "to_vector this convert = Returns ?xs"
    by (simp add: to_vector_def len may_throw_def)
  moreover have "length ?xs = unat n"
    by simp
  moreover have "\<forall>k<unat n. item_of this convert (of_nat k) = Inr (?xs ! k)"
    using items by auto
  ultimately show ?thesis
    by blast
qed

text \<open>
  The first element that cannot be got or converted ends the loop with its exception,
  which the conversion to a vector throws.
\<close>

lemma items_loop_throws:
  assumes "unat i \<le> j" and "j < unat n" and "item (of_nat j) = Inl e"
    and "\<forall>k. unat i \<le> k \<and> k < j \<longrightarrow> (\<exists>x. item (of_nat k) = Inr x)"
  shows "items_loop item n i acc = Inl e"
  using assms
proof (induction item n i acc rule: items_loop.induct)
  case (1 item n i acc)
  from "1.prems"(1,2) have less: "i < n"
    by (simp add: word_less_nat_alt)
  have suc: "unat (i + 1) = Suc (unat i)"
    by (rule unat_plus_one [OF less])
  show ?case
  proof (cases "j = unat i")
    case True
    with "1.prems"(3) have "item i = Inl e"
      by simp
    with less show ?thesis
      by simp
  next
    case False
    with "1.prems"(1) have later: "unat i < j"
      by simp
    with "1.prems"(4) have "\<exists>x. item (of_nat (unat i)) = Inr x"
      by blast
    then obtain x where x: "item i = Inr x"
      by auto
    have "items_loop item n (i + 1) (acc @ [x]) = Inl e"
      using later "1.prems"(2,3,4) by (intro "1.IH" [OF less x]) (simp_all add: suc)
    with less x show ?thesis
      by simp
  qed
qed

lemma to_vector_throws:
  assumes "GetLength this = Returns n" and "j < unat n"
    and "item_of this convert (of_nat j) = Inl e"
    and "\<forall>k<j. \<exists>x. item_of this convert (of_nat k) = Inr x"
  shows "to_vector this convert = Throws e"
proof -
  have "items_loop (item_of this convert) n 0 [] = Inl e"
    using assms(2,3,4) by (intro items_loop_throws [where j = j]) simp_all
  then show ?thesis
    by (simp add: to_vector_def assms(1) may_throw_def)
qed

text \<open>
  Claim C9. No exception leaves \<^verbatim>\<open>GetLength\<close>. It returns 0 when the array has no
  property \<^verbatim>\<open>length\<close>, and when the value of \<^verbatim>\<open>length\<close> is not a number; when the value is
  a number, it returns the conversion of that value to \<^verbatim>\<open>uint32_t\<close>.
\<close>

theorem GetLength_cases:
  "(\<forall>e. GetLength this \<noteq> Throws e) \<and>
   (\<not> HasProperty this ''length'' \<longrightarrow> GetLength this = Returns 0) \<and>
   (HasProperty this ''length'' \<and> GetProperty this ''length'' = Inr v \<and> \<not> IsNumber this v \<longrightarrow>
      GetLength this = Returns 0) \<and>
   (HasProperty this ''length'' \<and> GetProperty this ''length'' = Inr v \<and> IsNumber this v \<and>
    to_uint32_t this v = Inr n \<longrightarrow>
      GetLength this = Returns n)"
  by (auto simp: GetLength_def GetLength_body_def HAL_NOEXCEPT_def split: sum.splits)

text \<open>
  The theorem at the example array, at the array without \<^verbatim>\<open>length\<close>, and at the array
  whose \<^verbatim>\<open>length\<close> is \<^verbatim>\<open>undefined\<close>.
\<close>

theorem GetLength_cases_witness:
  "GetLength example_array = Returns 2 \<and>
   GetLength (example_array\<lparr>HasProperty := \<lambda>name. False\<rparr>) = Returns 0 \<and>
   GetLength (example_array\<lparr>GetProperty := \<lambda>name. Inr None\<rparr>) = Returns 0"
proof -
  have "GetLength example_array = Returns 2"
    using GetLength_cases [of example_array "Some 2" 2]
    by (simp add: example_array_def)
  moreover have "GetLength (example_array\<lparr>HasProperty := \<lambda>name. False\<rparr>) = Returns 0"
    using GetLength_cases [of "example_array\<lparr>HasProperty := \<lambda>name. False\<rparr>"]
    by simp
  moreover have "GetLength (example_array\<lparr>GetProperty := \<lambda>name. Inr None\<rparr>) = Returns 0"
    using GetLength_cases [of "example_array\<lparr>GetProperty := \<lambda>name. Inr None\<rparr>" None]
    by (simp add: example_array_def)
  ultimately show ?thesis
    by simp
qed

text \<open>
  Claim C10. When \<^verbatim>\<open>GetLength\<close> returns \<open>n\<close> and every element below \<open>n\<close> can be got and
  converted, each of the six conversions returns a vector of \<open>n\<close> elements whose element
  at \<open>k\<close> is the conversion of \<^verbatim>\<open>GetProperty(k)\<close>.
\<close>

theorem vector_conversions:
  "(GetLength this = Returns n \<and>
    (\<forall>k<unat n. \<exists>x. item_of this Inr (of_nat k) = Inr x) \<longrightarrow>
      (\<exists>xs. vector_of_JSValue this = Returns xs \<and> length xs = unat n \<and>
         (\<forall>k<unat n. GetProperty_index this (of_nat k) = Inr (xs ! k)))) \<and>
   (GetLength this = Returns n \<and>
    (\<forall>k<unat n. \<exists>x. item_of this (to_bool this) (of_nat k) = Inr x) \<longrightarrow>
      (\<exists>xs. vector_of_bool this = Returns xs \<and> length xs = unat n \<and>
         (\<forall>k<unat n. item_of this (to_bool this) (of_nat k) = Inr (xs ! k)))) \<and>
   (GetLength this = Returns n \<and>
    (\<forall>k<unat n. \<exists>x. item_of this (to_string this) (of_nat k) = Inr x) \<longrightarrow>
      (\<exists>xs. vector_of_string this = Returns xs \<and> length xs = unat n \<and>
         (\<forall>k<unat n. item_of this (to_string this) (of_nat k) = Inr (xs ! k)))) \<and>
   (GetLength this = Returns n \<and>
    (\<forall>k<unat n. \<exists>x. item_of this (to_double this) (of_nat k) = Inr x) \<longrightarrow>
      (\<exists>xs. vector_of_double this = Returns xs \<and> length xs = unat n \<and>
         (\<forall>k<unat n. item_of this (to_double this) (of_nat k) = Inr (xs ! k)))) \<and>
   (GetLength this = Returns n \<and>
    (\<forall>k<unat n. \<exists>x. item_of this (to_int32_t this) (of_nat k) = Inr x) \<longrightarrow>
      (\<exists>xs. vector_of_int32_t this = Returns xs \<and> length xs = unat n \<and>
         (\<forall>k<unat n. item_of this (to_int32_t this) (of_nat k) = Inr (xs ! k)))) \<and>
   (GetLength this = Returns n \<and>
    (\<forall>k<unat n. \<exists>x. item_of this (to_uint32_t this) (of_nat k) = Inr x) \<longrightarrow>
      (\<exists>xs. vector_of_uint32_t this = Returns xs \<and> length xs = unat n \<and>
         (\<forall>k<unat n. item_of this (to_uint32_t this) (of_nat k) = Inr (xs ! k))))"
proof -
  have plain: "item_of this Inr i = GetProperty_index this i" for i
    by (simp add: item_of_def split: sum.split)
  have one: "GetLength this = Returns n \<and>
      (\<forall>k<unat n. \<exists>x. item_of this convert (of_nat k) = Inr x) \<longrightarrow>
      (\<exists>xs. to_vector this convert = Returns xs \<and> length xs = unat n \<and>
         (\<forall>k<unat n. item_of this convert (of_nat k) = Inr (xs ! k)))"
    for convert :: "'a \<Rightarrow> error + 'c"
    using to_vector_elementwise [of this n convert] by blast
  show ?thesis
    unfolding vector_of_JSValue_def vector_of_bool_def vector_of_string_def
      vector_of_double_def vector_of_int32_t_def vector_of_uint32_t_def
    using one [of Inr] one [of "to_bool this"] one [of "to_string this"]
      one [of "to_double this"] one [of "to_int32_t this"] one [of "to_uint32_t this"]
    unfolding plain by (intro conjI) assumption+
qed

text \<open>
  The theorem at the example array: the vector of \<^verbatim>\<open>uint32_t\<close> has the two elements 10
  and 20.
\<close>

theorem vector_conversions_witness:
  "\<exists>xs. vector_of_uint32_t example_array = Returns xs \<and> length xs = 2 \<and>
         xs ! 0 = 10 \<and> xs ! 1 = 20"
proof -
  have len: "GetLength example_array = Returns 2"
    by (simp add: GetLength_def GetLength_body_def HAL_NOEXCEPT_def example_array_def)
  have item0: "item_of example_array (to_uint32_t example_array) 0 = Inr 10"
    and item1: "item_of example_array (to_uint32_t example_array) 1 = Inr 20"
    by (simp_all add: item_of_def example_array_def)
  have items: "\<forall>k<unat (2 :: 32 word).
      \<exists>x. item_of example_array (to_uint32_t example_array) (of_nat k) = Inr x"
    using item0 item1 by (auto simp: less_2_cases_iff)
  from vector_conversions [of example_array 2] len items obtain xs where
    xs: "vector_of_uint32_t example_array = Returns xs" "length xs = unat (2 :: 32 word)"
      "\<forall>k<unat (2 :: 32 word).
         item_of example_array (to_uint32_t example_array) (of_nat k) = Inr (xs ! k)"
    by blast
  have "xs ! 0 = 10"
    using xs(3) [rule_format, of 0] item0 by simp
  moreover have "xs ! 1 = 20"
    using xs(3) [rule_format, of 1] item1 by simp
  ultimately have "xs ! 0 = 10" "xs ! 1 = 20"
    by simp_all
  with xs(1,2) show ?thesis
    by simp
qed

end
